theory Spec2Isabelle
  imports Main "HOL-Library.AList"
begin

section \<open>Data model of OnlineGameRoomManager.py\<close>

text \<open>
  A websocket object is used by the program only through its identity (as a dict key, in
  \<^verbatim>\<open>in\<close> tests on lists, with \<^verbatim>\<open>==\<close>) and through \<^verbatim>\<open>send\<close>. It is modelled by a number.
\<close>

type_synonym conn = nat

text \<open>
  Values produced by \<^verbatim>\<open>json.loads\<close> and consumed by \<^verbatim>\<open>json.dumps\<close>. A decoded object is an
  insertion-ordered dict with string keys: an association list. Numbers are Python's
  unbounded integers; floating-point numbers are outside this embedding.
\<close>

datatype json =
    JNull
  | JBool bool
  | JInt int
  | JStr string
  | JList "json list"
  | JObj "(string \<times> json) list"

text \<open>
  The decoded values that Python can hash, hence use as a key of \<^verbatim>\<open>rooms\<close>. A list or a dict
  raises \<^verbatim>\<open>TypeError\<close> at the first dict lookup. The values stored in \<^verbatim>\<open>client_rooms\<close> have all
  passed that lookup (lines 62, 68, 109), which is why that dict holds \<open>hashable\<close> values.
\<close>

datatype hashable = HNone | HBool bool | HInt int | HStr string

fun as_hashable :: "json \<Rightarrow> hashable option" where
  "as_hashable JNull = Some HNone"
| "as_hashable (JBool b) = Some (HBool b)"
| "as_hashable (JInt i) = Some (HInt i)"
| "as_hashable (JStr s) = Some (HStr s)"
| "as_hashable (JList xs) = None"
| "as_hashable (JObj kvs) = None"

fun to_json :: "hashable \<Rightarrow> json" where
  "to_json HNone = JNull"
| "to_json (HBool b) = JBool b"
| "to_json (HInt i) = JInt i"
| "to_json (HStr s) = JStr s"

text \<open>
  Python dict keys are compared by hash and \<^verbatim>\<open>==\<close>, and \<^verbatim>\<open>True == 1\<close>, \<^verbatim>\<open>False == 0\<close>:
  \<open>key_of\<close> chooses the representative under which a room is filed.
\<close>

fun key_of :: "hashable \<Rightarrow> hashable" where
  "key_of (HBool b) = HInt (if b then 1 else 0)"
| "key_of h = h"

text \<open>What an f-string prints for a value: \<^verbatim>\<open>str\<close>.\<close>

fun str_nat :: "nat \<Rightarrow> string" where
  "str_nat n =
     (if n < 10 then [''0123456789'' ! n]
      else str_nat (n div 10) @ [''0123456789'' ! (n mod 10)])"

declare str_nat.simps [simp del]

definition str_int :: "int \<Rightarrow> string" where
  "str_int i = (if i < 0 then ''-'' @ str_nat (nat (- i)) else str_nat (nat i))"

fun py_str :: "hashable \<Rightarrow> string" where
  "py_str HNone = ''None''"
| "py_str (HBool b) = (if b then ''True'' else ''False'')"
| "py_str (HInt i) = str_int i"
| "py_str (HStr s) = s"

fun str_player :: "int option \<Rightarrow> string" where
  "str_player None = ''None''"
| "str_player (Some n) = str_int n"

fun json_player :: "int option \<Rightarrow> json" where
  "json_player None = JNull"
| "json_player (Some n) = JInt n"

text \<open>
  A room (lines 63-67): the dict with the keys \<^verbatim>\<open>clients\<close>, \<^verbatim>\<open>players\<close> and
  \<^verbatim>\<open>used_player_numbers\<close>. All three keys are set at creation and never removed, so the test
  \<^verbatim>\<open>"used_player_numbers" in room\<close> (lines 107, 223) is always true. \<^verbatim>\<open>players\<close> is read
  in insertion order by \<^verbatim>\<open>list(room["players"].values())\<close>, so it is an association list
  with the dict operations of \<open>AList\<close>: an update of a present key keeps its place, a new
  key goes to the end.
\<close>

record room =
  clients :: "conn list"
  players :: "(conn \<times> int) list"
  used_player_numbers :: "(int \<times> bool) list"

text \<open>What a call of \<^verbatim>\<open>send\<close> on a websocket does.\<close>

datatype send_result = SendOk | ConnectionClosed | SendFailed

text \<open>
  The two module-level dicts, and the record of every \<^verbatim>\<open>send\<close> attempted so far
  (receiver, message, outcome), in order.
\<close>

record server =
  rooms :: "hashable \<rightharpoonup> room"
  client_rooms :: "conn \<rightharpoonup> hashable"
  wire :: "(conn \<times> json \<times> send_result) list"

definition init :: server where
  "init = \<lparr>rooms = Map.empty, client_rooms = Map.empty, wire = []\<rparr>"

text \<open>
  The network is a parameter: \<open>net i\<close> is the outcome of the \<open>i\<close>-th send attempted since
  the server started. Every sequence of outcomes is some \<open>net\<close>. Handling one message is
  one atomic step: the interleaving of coroutines at \<^verbatim>\<open>await\<close> is not modelled.
\<close>

type_synonym network = "nat \<Rightarrow> send_result"

definition send :: "network \<Rightarrow> conn \<Rightarrow> json \<Rightarrow> server \<Rightarrow> send_result \<times> server" where
  "send net c m w =
     (let res = net (length (wire w)) in (res, w\<lparr>wire := wire w @ [(c, m, res)]\<rparr>))"

section \<open>Messages (the dict \<^verbatim>\<open>MESSAGE_TYPE\<close> and the replies built in the code)\<close>

definition ERROR :: string where "ERROR = ''error''"
definition ROOM_CREATED :: string where "ROOM_CREATED = ''room_created''"
definition ROOM_JOINED :: string where "ROOM_JOINED = ''room_joined''"
definition ROOM_FULL :: string where "ROOM_FULL = ''room_full''"
definition PLAYER_JOINED :: string where "PLAYER_JOINED = ''player_joined''"
definition PLAYER_LEFT :: string where "PLAYER_LEFT = ''player_left''"
definition DATA_RECEIVED :: string where "DATA_RECEIVED = ''data_received''"
definition DATA_TRANSFER :: string where "DATA_TRANSFER = ''data_transfer''"

definition invalid_format_msg :: json where
  "invalid_format_msg = JObj
     [(''status'', JStr ERROR),
      (''message'', JStr ''Invalid data format. Please provide correct JSON''),
      (''data'', JNull)]"

definition missing_room_id_msg :: json where
  "missing_room_id_msg = JObj
     [(''status'', JStr ERROR),
      (''message'', JStr ''Missing required parameter: room_id''),
      (''data'', JNull)]"

definition room_created_msg :: "hashable \<Rightarrow> json" where
  "room_created_msg room_id = JObj
     [(''status'', JStr ROOM_CREATED),
      (''message'', JStr (''Room '' @ py_str room_id @ '' has been created. You are player 1'')),
      (''data'', JObj
         [(''room_id'', to_json room_id),
          (''player_number'', JInt 1),
          (''current_players_count'', JInt 1),
          (''max_players'', JInt 2)])]"

definition room_full_msg :: "hashable \<Rightarrow> nat \<Rightarrow> json" where
  "room_full_msg room_id n = JObj
     [(''status'', JStr ROOM_FULL),
      (''message'', JStr ''Room is full. Cannot join''),
      (''data'', JObj
         [(''room_id'', to_json room_id),
          (''current_players_count'', JInt (int n)),
          (''max_players'', JInt 2)])]"

definition room_joined_msg :: "hashable \<Rightarrow> int \<Rightarrow> nat \<Rightarrow> int list \<Rightarrow> json" where
  "room_joined_msg room_id player_number current_players_count players_list = JObj
     [(''status'', JStr ROOM_JOINED),
      (''message'', JStr (''You have joined room '' @ py_str room_id @ ''. You are player ''
          @ str_int player_number)),
      (''data'', JObj
         [(''room_id'', to_json room_id),
          (''player_number'', JInt player_number),
          (''current_players_count'', JInt (int current_players_count)),
          (''max_players'', JInt 2),
          (''players'', JList (map JInt players_list))])]"

definition player_joined_msg :: "hashable \<Rightarrow> int \<Rightarrow> nat \<Rightarrow> int list \<Rightarrow> json" where
  "player_joined_msg room_id player_number current_players_count players_list = JObj
     [(''status'', JStr PLAYER_JOINED),
      (''message'', JStr (''Player '' @ str_int player_number @ '' has joined the room'')),
      (''data'', JObj
         [(''room_id'', to_json room_id),
          (''player_number'', JInt player_number),
          (''current_players_count'', JInt (int current_players_count)),
          (''players'', JList (map JInt players_list))])]"

definition data_transfer_msg :: "json \<Rightarrow> int \<Rightarrow> json" where
  "data_transfer_msg original_data player_number = JObj
     [(''status'', JStr DATA_TRANSFER),
      (''message'', JStr ''Received data from another player''),
      (''data'', original_data),
      (''from_player'', JInt player_number)]"

definition data_received_msg :: "hashable \<Rightarrow> nat \<Rightarrow> nat \<Rightarrow> json" where
  "data_received_msg room_id forward_count current_players_count = JObj
     [(''status'', JStr DATA_RECEIVED),
      (''message'', JStr ''Data received and forwarded''),
      (''data'', JObj
         [(''room_id'', to_json room_id),
          (''recipients_count'', JInt (int forward_count)),
          (''current_players_count'', JInt (int current_players_count))])]"

definition player_left_msg :: "hashable \<Rightarrow> int option \<Rightarrow> nat \<Rightarrow> int list \<Rightarrow> json" where
  "player_left_msg room_id player_number current_players_count players_list = JObj
     [(''status'', JStr PLAYER_LEFT),
      (''message'', JStr (''Player '' @ str_player player_number @ '' has left room ''
          @ py_str room_id)),
      (''data'', JObj
         [(''room_id'', to_json room_id),
          (''player_number'', json_player player_number),
          (''current_players_count'', JInt (int current_players_count)),
          (''players'', JList (map JInt players_list))])]"

text \<open>Reading a reply: \<^verbatim>\<open>m[k]\<close> and \<^verbatim>\<open>m["data"][k]\<close>, \<open>None\<close> where Python has no such key.\<close>

fun field :: "string \<Rightarrow> json \<Rightarrow> json option" where
  "field k (JObj kvs) = map_of kvs k"
| "field k v = None"

definition data_field :: "string \<Rightarrow> json \<Rightarrow> json option" where
  "data_field k m = (case field ''data'' m of None \<Rightarrow> None | Some d \<Rightarrow> field k d)"

section \<open>\<^verbatim>\<open>cleanup_player\<close> (lines 205-253)\<close>

text \<open>
  A loop that sends one message to each connection of a list and catches every exception
  of the send (lines 234-248): the outcome is recorded and otherwise ignored.
\<close>

fun notify_all :: "network \<Rightarrow> json \<Rightarrow> conn list \<Rightarrow> server \<Rightarrow> server" where
  "notify_all net m [] w = w"
| "notify_all net m (client # cs) w = notify_all net m cs (snd (send net client m w))"

text \<open>
  Lines 221-226: the player number is popped (\<open>None\<close> when the connection has none), its
  number is released, the connection is removed from the clients.
\<close>

definition remove_player :: "conn \<Rightarrow> room \<Rightarrow> int option \<times> room" where
  "remove_player websocket room =
     (let player_number = map_of (players room) websocket;
          room1 = room\<lparr>players := AList.delete websocket (players room)\<rparr>;
          room2 =
            (case player_number of
               None \<Rightarrow> room1
             | Some n \<Rightarrow>
                 if n \<in> fst ` set (used_player_numbers room1)
                 then room1\<lparr>used_player_numbers := AList.delete n (used_player_numbers room1)\<rparr>
                 else room1)
      in (player_number, room2\<lparr>clients := remove1 websocket (clients room2)\<rparr>))"

text \<open>
  Lines 210-213: \<^verbatim>\<open>client_rooms.pop(websocket, None)\<close> removes the entry and gives its
  value, and \<^verbatim>\<open>None\<close> when there is no entry. The test \<^verbatim>\<open>room_id is None\<close> that follows
  is also true for an entry whose value is \<^verbatim>\<open>None\<close> (a room created or joined with
  \<^verbatim>\<open>"room_id": null\<close>): then the entry is gone and the function returns, the room is not
  looked at. The whole call is one step of the model: the \<^verbatim>\<open>await\<close> of line 236, between
  the removal of line 226 and the test of line 251, is not a point where another
  coroutine runs.
\<close>

definition cleanup_player :: "network \<Rightarrow> conn \<Rightarrow> server \<Rightarrow> server" where
  "cleanup_player net websocket w =
     (case client_rooms w websocket of
        None \<Rightarrow> w
      | Some room_id \<Rightarrow>
          let w1 = w\<lparr>client_rooms := (client_rooms w)(websocket := None)\<rparr> in
          if room_id = HNone then w1
          else
          (case rooms w1 (key_of room_id) of
             None \<Rightarrow> w1
           | Some room \<Rightarrow>
               if websocket \<in> set (clients room) then
                 let (player_number, room') = remove_player websocket room;
                     w2 = w1\<lparr>rooms := (rooms w1)(key_of room_id \<mapsto> room')\<rparr>;
                     players_list = map snd (players room');
                     current_players_count = length (clients room');
                     w3 = notify_all net
                            (player_left_msg room_id player_number current_players_count players_list)
                            (clients room') w2
                 in if clients room' = [] then w3\<lparr>rooms := (rooms w3)(key_of room_id := None)\<rparr>
                    else w3
               else w1))"

section \<open>\<^verbatim>\<open>handler\<close> (lines 29-202)\<close>

text \<open>
  A frame read from the websocket, as \<^verbatim>\<open>json.loads\<close> sees it (line 37): it raises
  \<^verbatim>\<open>JSONDecodeError\<close> (\<open>Undecodable\<close>), it raises another exception (\<open>Unreadable\<close>: a
  binary frame that is not UTF-8 raises \<^verbatim>\<open>UnicodeDecodeError\<close>, an integer of more than
  4300 digits \<^verbatim>\<open>ValueError\<close>, too deep a nesting \<^verbatim>\<open>RecursionError\<close>), or it returns the
  decoded value. Line 39 catches the first only; the others leave the loop.
\<close>

datatype inbound = Undecodable | Unreadable | Decoded json

text \<open>
  How the body of the \<^verbatim>\<open>async for\<close> ends for one message: it reaches the next iteration,
  or an exception leaves the loop (to the \<^verbatim>\<open>except\<close> and \<^verbatim>\<open>finally\<close> of lines 195-202).
\<close>

datatype flow = Continue | Raised

definition reply :: "network \<Rightarrow> conn \<Rightarrow> json \<Rightarrow> server \<Rightarrow> flow \<times> server" where
  "reply net websocket m w =
     (case send net websocket m w of
        (SendOk, w') \<Rightarrow> (Continue, w')
      | (_, w') \<Rightarrow> (Raised, w'))"

text \<open>Lines 62-81.\<close>

definition create_room :: "network \<Rightarrow> conn \<Rightarrow> hashable \<Rightarrow> server \<Rightarrow> flow \<times> server" where
  "create_room net websocket room_id w =
     (let w1 = w\<lparr>rooms := (rooms w)(key_of room_id \<mapsto>
                    \<lparr>clients = [websocket], players = [(websocket, 1)],
                     used_player_numbers = [(1, True)]\<rparr>),
                 client_rooms := (client_rooms w)(websocket \<mapsto> room_id)\<rparr>
      in reply net websocket (room_created_msg room_id) w1)"

text \<open>
  Lines 100-102. \<^verbatim>\<open>room["players"][client]\<close> raises \<^verbatim>\<open>KeyError\<close> for a client without
  a number: \<open>None\<close>.
\<close>

fun player_numbers_of :: "(conn \<times> int) list \<Rightarrow> conn list \<Rightarrow> int list option" where
  "player_numbers_of ps [] = Some []"
| "player_numbers_of ps (client # cs) =
     (case map_of ps client of
        None \<Rightarrow> None
      | Some n \<Rightarrow>
          (case player_numbers_of ps cs of None \<Rightarrow> None | Some ns \<Rightarrow> Some (n # ns)))"

definition available_numbers :: "room \<Rightarrow> int list option" where
  "available_numbers room =
     (case player_numbers_of (players room) (clients room) of
        None \<Rightarrow> None
      | Some taken \<Rightarrow> Some (filter (\<lambda>i. i \<notin> set taken) [1, 2]))"

definition choose_number :: "int list \<Rightarrow> int" where
  "choose_number available = (if available \<noteq> [] then min_list available else 2)"

text \<open>The loop of lines 130-145: every exception of the send is caught.\<close>

fun notify_others :: "network \<Rightarrow> conn \<Rightarrow> json \<Rightarrow> conn list \<Rightarrow> server \<Rightarrow> server" where
  "notify_others net websocket m [] w = w"
| "notify_others net websocket m (client # cs) w =
     (if client \<noteq> websocket
      then notify_others net websocket m cs (snd (send net client m w))
      else notify_others net websocket m cs w)"

text \<open>Lines 105-108.\<close>

definition add_player :: "conn \<Rightarrow> int \<Rightarrow> room \<Rightarrow> room" where
  "add_player websocket player_number room =
     room\<lparr>clients := clients room @ [websocket],
          players := AList.update websocket player_number (players room),
          used_player_numbers := AList.update player_number True (used_player_numbers room)\<rparr>"

text \<open>Lines 99-145.\<close>

definition join_room :: "network \<Rightarrow> conn \<Rightarrow> hashable \<Rightarrow> room \<Rightarrow> server \<Rightarrow> flow \<times> server" where
  "join_room net websocket room_id room w =
     (case available_numbers room of
        None \<Rightarrow> (Raised, w)
      | Some available \<Rightarrow>
          let player_number = choose_number available;
              room' = add_player websocket player_number room;
              w1 = w\<lparr>rooms := (rooms w)(key_of room_id \<mapsto> room'),
                     client_rooms := (client_rooms w)(websocket \<mapsto> room_id)\<rparr>;
              players_list = map snd (players room');
              current_players_count = length (clients room')
          in (case send net websocket
                     (room_joined_msg room_id player_number current_players_count players_list) w1 of
                (SendOk, w2) \<Rightarrow>
                  (Continue,
                   notify_others net websocket
                     (player_joined_msg room_id player_number current_players_count players_list)
                     (clients room') w2)
              | (_, w2) \<Rightarrow> (Raised, w2)))"

text \<open>
  The loop of lines 156-178 over the snapshot \<^verbatim>\<open>list(room["clients"])\<close>: a closed
  connection is cleaned up, any other exception is only logged.
\<close>

fun forward_loop ::
  "network \<Rightarrow> conn \<Rightarrow> json \<Rightarrow> conn list \<Rightarrow> nat \<times> server \<Rightarrow> nat \<times> server" where
  "forward_loop net websocket m [] (forward_count, w) = (forward_count, w)"
| "forward_loop net websocket m (client # cs) (forward_count, w) =
     (if client = websocket then forward_loop net websocket m cs (forward_count, w)
      else
        (case send net client m w of
           (SendOk, w') \<Rightarrow> forward_loop net websocket m cs (forward_count + 1, w')
         | (ConnectionClosed, w') \<Rightarrow>
             forward_loop net websocket m cs (forward_count, cleanup_player net client w')
         | (SendFailed, w') \<Rightarrow> forward_loop net websocket m cs (forward_count, w')))"

text \<open>
  Lines 148-193. The local \<^verbatim>\<open>room\<close> is the object filed in \<^verbatim>\<open>rooms\<close>, which the
  cleanups of the loop mutate: line 191 reads it again. It stays filed as long as the
  sender is in it; an object taken out of \<^verbatim>\<open>rooms\<close> has no clients (line 251).
\<close>

definition relay :: "network \<Rightarrow> conn \<Rightarrow> hashable \<Rightarrow> json \<Rightarrow> room \<Rightarrow> server \<Rightarrow> flow \<times> server" where
  "relay net websocket room_id data room w =
     (case map_of (players room) websocket of
        None \<Rightarrow> (Raised, w)
      | Some player_number \<Rightarrow>
          let original_data = data;
              (forward_count, w1) =
                forward_loop net websocket (data_transfer_msg original_data player_number)
                  (clients room) (0, w);
              current_players_count =
                (case rooms w1 (key_of room_id) of None \<Rightarrow> 0 | Some r \<Rightarrow> length (clients r))
          in reply net websocket
               (data_received_msg room_id forward_count current_players_count) w1)"

text \<open>The body of the loop, lines 34-193.\<close>

definition handle_message :: "network \<Rightarrow> conn \<Rightarrow> inbound \<Rightarrow> server \<Rightarrow> flow \<times> server" where
  "handle_message net websocket message w =
     (case message of
        Undecodable \<Rightarrow> reply net websocket invalid_format_msg w
      | Unreadable \<Rightarrow> (Raised, w)
      | Decoded data \<Rightarrow>
          (case data of
             JObj kvs \<Rightarrow>
               (case map_of kvs ''room_id'' of
                  None \<Rightarrow> reply net websocket missing_room_id_msg w
                | Some rid \<Rightarrow>
                    (case as_hashable rid of
                       None \<Rightarrow> (Raised, w)
                     | Some room_id \<Rightarrow>
                         (case rooms w (key_of room_id) of
                            None \<Rightarrow> create_room net websocket room_id w
                          | Some room \<Rightarrow>
                              if websocket \<notin> set (clients room) then
                                if length (clients room) \<ge> 2
                                then reply net websocket
                                       (room_full_msg room_id (length (clients room))) w
                                else join_room net websocket room_id room w
                              else relay net websocket room_id data room w)))
           | _ \<Rightarrow> reply net websocket missing_room_id_msg w))"

text \<open>
  The whole coroutine for one connection: the messages it delivers before it closes, then
  the \<^verbatim>\<open>finally\<close> of line 201.
\<close>

fun message_loop :: "network \<Rightarrow> conn \<Rightarrow> inbound list \<Rightarrow> server \<Rightarrow> server" where
  "message_loop net websocket [] w = w"
| "message_loop net websocket (message # ms) w =
     (case handle_message net websocket message w of
        (Continue, w') \<Rightarrow> message_loop net websocket ms w'
      | (Raised, w') \<Rightarrow> w')"

definition handler :: "network \<Rightarrow> conn \<Rightarrow> inbound list \<Rightarrow> server \<Rightarrow> server" where
  "handler net websocket ms w = cleanup_player net websocket (message_loop net websocket ms w)"


section \<open>Names used in the statements\<close>

text \<open>
  A frame that is not a well-formed envelope: it does not decode (with either kind of
  exception), or the decoded value is not a dict or has no key \<^verbatim>\<open>room_id\<close> (line 48).
\<close>

fun malformed :: "inbound \<Rightarrow> bool" where
  "malformed Undecodable = True"
| "malformed Unreadable = True"
| "malformed (Decoded (JObj kvs)) = (map_of kvs ''room_id'' = None)"
| "malformed (Decoded v) = True"


text \<open>No room in \<^verbatim>\<open>rooms\<close> is without clients.\<close>

definition no_empty_room :: "server \<Rightarrow> bool" where
  "no_empty_room w \<longleftrightarrow> (\<forall>k room. rooms w k = Some room \<longrightarrow> clients room \<noteq> [])"


text \<open>The sends attempted so far, without their outcomes.\<close>

definition attempts :: "server \<Rightarrow> (conn \<times> json) list" where
  "attempts w = map (\<lambda>(c, m, res). (c, m)) (wire w)"

text \<open>
  A run used for the concrete instances below: connection 1 creates room \<open>r1\<close>,
  connection 2 joins it, connection 1 disconnects, connection 3 joins. Every send succeeds.
\<close>

definition net_ok :: network where
  "net_ok = (\<lambda>i. SendOk)"

definition hello :: inbound where
  "hello = Decoded (JObj [(''room_id'', JStr ''r1'')])"

text \<open>A payload for a relay.\<close>

definition move :: "(string \<times> json) list" where
  "move = [(''room_id'', JStr ''r1''), (''move'', JStr ''x'')]"

definition s1 :: server where
  "s1 = snd (handle_message net_ok 1 hello init)"

definition s2 :: server where
  "s2 = snd (handle_message net_ok 2 hello s1)"

definition s3 :: server where
  "s3 = cleanup_player net_ok 1 s2"

definition s4 :: server where
  "s4 = snd (handle_message net_ok 3 hello s3)"

text \<open>
  Two networks on which one send fails with a closed connection: the \<^verbatim>\<open>player_joined\<close>
  notification when connection 2 joins after \<open>s1\<close> (send number 2), and the forward of a
  relay after \<open>s2\<close> (send number 3).
\<close>

definition net_drop :: network where
  "net_drop = (\<lambda>i. if i = 2 then ConnectionClosed else SendOk)"

definition net_closed :: network where
  "net_closed = (\<lambda>i. if i = 3 then ConnectionClosed else SendOk)"

definition s2_drop :: server where
  "s2_drop = snd (handle_message net_drop 2 hello s1)"

section \<open>What a send and the notification loops leave alone\<close>

lemma send_rooms [simp]: "rooms (snd (send net c m w)) = rooms w"
  by (simp add: send_def Let_def)

lemma send_client_rooms [simp]: "client_rooms (snd (send net c m w)) = client_rooms w"
  by (simp add: send_def Let_def)

lemma send_wire [simp]:
  "wire (snd (send net c m w)) = wire w @ [(c, m, net (length (wire w)))]"
  by (simp add: send_def Let_def)

lemma send_fst [simp]: "fst (send net c m w) = net (length (wire w))"
  by (simp add: send_def Let_def)

lemma notify_all_rooms [simp]: "rooms (notify_all net m cs w) = rooms w"
  by (induction cs arbitrary: w) simp_all

lemma notify_all_client_rooms [simp]:
  "client_rooms (notify_all net m cs w) = client_rooms w"
  by (induction cs arbitrary: w) simp_all

lemma notify_others_rooms [simp]: "rooms (notify_others net ws m cs w) = rooms w"
  by (induction cs arbitrary: w) simp_all

lemma notify_others_client_rooms [simp]:
  "client_rooms (notify_others net ws m cs w) = client_rooms w"
  by (induction cs arbitrary: w) simp_all

lemma reply_eq:
  "reply net ws m w =
     (if net (length (wire w)) = SendOk then Continue else Raised,
      w\<lparr>wire := wire w @ [(ws, m, net (length (wire w)))]\<rparr>)"
  by (simp add: reply_def send_def Let_def split: send_result.splits)

section \<open>The run \<open>s1\<close>, \<open>s2\<close>, \<open>s3\<close>, \<open>s4\<close> evaluated\<close>

lemma s1_eq:
  "s1 = \<lparr>rooms = [HStr ''r1'' \<mapsto>
            \<lparr>clients = [1], players = [(1, 1)], used_player_numbers = [(1, True)]\<rparr>],
         client_rooms = [1 \<mapsto> HStr ''r1''],
         wire = [(1, room_created_msg (HStr ''r1''), SendOk)]\<rparr>"
  by (simp add: s1_def hello_def handle_message_def init_def create_room_def reply_eq
      net_ok_def)

lemma s2_eq:
  "s2 = \<lparr>rooms = [HStr ''r1'' \<mapsto>
            \<lparr>clients = [1, 2], players = [(1, 1), (2, 2)],
             used_player_numbers = [(1, True), (2, True)]\<rparr>],
         client_rooms = [1 \<mapsto> HStr ''r1'', 2 \<mapsto> HStr ''r1''],
         wire = [(1, room_created_msg (HStr ''r1''), SendOk),
                 (2, room_joined_msg (HStr ''r1'') 2 2 [1, 2], SendOk),
                 (1, player_joined_msg (HStr ''r1'') 2 2 [1, 2], SendOk)]\<rparr>"
  by (simp add: s2_def s1_eq hello_def handle_message_def join_room_def add_player_def
      available_numbers_def choose_number_def send_def Let_def net_ok_def eval_nat_numeral)

lemma s3_eq:
  "s3 = \<lparr>rooms = [HStr ''r1'' \<mapsto>
            \<lparr>clients = [2], players = [(2, 2)], used_player_numbers = [(2, True)]\<rparr>],
         client_rooms = [2 \<mapsto> HStr ''r1''],
         wire = [(1, room_created_msg (HStr ''r1''), SendOk),
                 (2, room_joined_msg (HStr ''r1'') 2 2 [1, 2], SendOk),
                 (1, player_joined_msg (HStr ''r1'') 2 2 [1, 2], SendOk),
                 (2, player_left_msg (HStr ''r1'') (Some 1) 1 [2], SendOk)]\<rparr>"
  by (simp add: s3_def s2_eq cleanup_player_def remove_player_def Let_def send_def net_ok_def
      AList.delete_eq eval_nat_numeral)

lemma s4_eq:
  "s4 = \<lparr>rooms = [HStr ''r1'' \<mapsto>
            \<lparr>clients = [2, 3], players = [(2, 2), (3, 1)],
             used_player_numbers = [(2, True), (1, True)]\<rparr>],
         client_rooms = [2 \<mapsto> HStr ''r1'', 3 \<mapsto> HStr ''r1''],
         wire = [(1, room_created_msg (HStr ''r1''), SendOk),
                 (2, room_joined_msg (HStr ''r1'') 2 2 [1, 2], SendOk),
                 (1, player_joined_msg (HStr ''r1'') 2 2 [1, 2], SendOk),
                 (2, player_left_msg (HStr ''r1'') (Some 1) 1 [2], SendOk),
                 (3, room_joined_msg (HStr ''r1'') 1 2 [2, 1], SendOk),
                 (2, player_joined_msg (HStr ''r1'') 1 2 [2, 1], SendOk)]\<rparr>"
  by (simp add: s4_def s3_eq hello_def handle_message_def join_room_def add_player_def
      available_numbers_def choose_number_def send_def Let_def net_ok_def eval_nat_numeral)

section \<open>Cleanup\<close>

lemma cleanup_absent: "client_rooms w ws = None \<Longrightarrow> cleanup_player net ws w = w"
  by (simp add: cleanup_player_def)

lemma cleanup_null_room:
  "client_rooms w ws = Some HNone \<Longrightarrow>
   cleanup_player net ws w = w\<lparr>client_rooms := (client_rooms w)(ws := None)\<rparr>"
  by (simp add: cleanup_player_def)

lemma cleanup_client_rooms:
  "client_rooms (cleanup_player net ws w) = (client_rooms w)(ws := None)"
  by (auto simp add: cleanup_player_def Let_def split: option.splits prod.splits)

text \<open>
  C9. Cleanup of a connection that is not (or no longer) in \<^verbatim>\<open>client_rooms\<close> returns at
  line 213 and changes nothing: neither dict, no room, and nothing is sent. So a second
  cleanup of the same connection, under any network, leaves the server exactly as the
  first one left it.
\<close>

theorem cleanup_idempotent:
  "(client_rooms w websocket = None \<longrightarrow> cleanup_player net websocket w = w) \<and>
   cleanup_player net' websocket (cleanup_player net websocket w)
     = cleanup_player net websocket w"
  by (simp add: cleanup_absent cleanup_client_rooms)

theorem cleanup_idempotent_witness:
  "client_rooms s3 1 = None \<and> cleanup_player net_ok 1 s3 = s3"
  using cleanup_idempotent [of s3 1 net_ok net_ok] by (simp add: s3_eq)

section \<open>Slot numbers\<close>

lemma player_numbers_of_Some:
  "\<forall>c\<in>set cs. map_of ps c \<noteq> None \<Longrightarrow>
   \<exists>ns. player_numbers_of ps cs = Some ns \<and> length ns = length cs"
  by (induction cs) auto

lemma available_numbers_nonempty:
  assumes "length (clients room) < 2"
    and "\<forall>c\<in>set (clients room). map_of (players room) c \<noteq> None"
  shows "\<exists>available. available_numbers room = Some available \<and> available \<noteq> [] \<and>
           choose_number available = Min (set available)"
proof -
  from player_numbers_of_Some [OF assms(2)] obtain taken where
    t: "player_numbers_of (players room) (clients room) = Some taken" and
    l: "length taken = length (clients room)" by blast
  from l assms(1) have "length taken < 2" by simp
  then have "taken = [] \<or> (\<exists>n. taken = [n])"
    by (cases taken) auto
  then have "filter (\<lambda>i. i \<notin> set taken) [1, 2::int] \<noteq> []" by auto
  with t show ?thesis
    by (simp add: available_numbers_def choose_number_def min_list_Min)
qed

text \<open>
  C10. In a room with fewer than two clients, each of which has a player number, the
  list \<^verbatim>\<open>available_numbers\<close> of line 100 is computed without a \<^verbatim>\<open>KeyError\<close> and is not
  empty: line 102 takes the minimum of a non-empty list and never its fallback 2.
  (That the numbers held are distinct and in {1,2} is not needed.)
\<close>

theorem available_nonempty:
  assumes "length (clients room) < 2"
    and "\<forall>c\<in>set (clients room). map_of (players room) c \<noteq> None"
  shows "\<exists>available. available_numbers room = Some available \<and> available \<noteq> [] \<and>
           choose_number available = Min (set available)"
  using assms by (rule available_numbers_nonempty)

theorem available_nonempty_witness:
  "length (clients \<lparr>clients = [7], players = [(7, 1)], used_player_numbers = [(1, True)]\<rparr>) < 2 \<and>
   available_numbers \<lparr>clients = [7], players = [(7, 1)], used_player_numbers = [(1, True)]\<rparr>
     = Some [2] \<and>
   choose_number [2] = 2"
  using available_nonempty
    [of "\<lparr>clients = [7], players = [(7, 1)], used_player_numbers = [(1, True)]\<rparr>"]
  by (simp add: available_numbers_def choose_number_def)

section \<open>Messages that are refused\<close>

text \<open>
  A frame on which \<^verbatim>\<open>json.loads\<close> raises an exception other than \<^verbatim>\<open>JSONDecodeError\<close> is
  not answered: nothing is sent, the loop ends without reading the frames that follow, and
  the connection is cleaned up (lines 197-201).
\<close>

lemma unreadable_frame:
  "handle_message net websocket Unreadable w = (Raised, w)"
  "message_loop net websocket (Unreadable # ms) w = w"
  "handler net websocket (Unreadable # ms) w = cleanup_player net websocket w"
  by (simp_all add: handle_message_def handler_def)

text \<open>
  C8, as the code has it. A frame on which \<^verbatim>\<open>json.loads\<close> raises \<^verbatim>\<open>JSONDecodeError\<close>, or
  whose decoded value is not a dict with the key \<^verbatim>\<open>room_id\<close>, has exactly one effect: one
  reply with status \<^verbatim>\<open>error\<close> is sent to the sender. \<^verbatim>\<open>rooms\<close> and \<^verbatim>\<open>client_rooms\<close> are
  unchanged, and when that send succeeds the loop goes on with the next message.
\<close>

theorem malformed_rejected:
  assumes "malformed message" and "message \<noteq> Unreadable"
  shows "\<exists>m. field ''status'' m = Some (JStr ERROR) \<and>
           handle_message net websocket message w =
             (if net (length (wire w)) = SendOk then Continue else Raised,
              w\<lparr>wire := wire w @ [(websocket, m, net (length (wire w)))]\<rparr>) \<and>
           rooms (snd (handle_message net websocket message w)) = rooms w \<and>
           client_rooms (snd (handle_message net websocket message w)) = client_rooms w \<and>
           (net (length (wire w)) = SendOk \<longrightarrow>
              message_loop net websocket (message # ms) w =
                message_loop net websocket ms
                  (w\<lparr>wire := wire w @ [(websocket, m, SendOk)]\<rparr>))"
proof (cases message)
  case Undecodable
  have "field ''status'' invalid_format_msg = Some (JStr ERROR)"
    by (simp add: invalid_format_msg_def)
  then show ?thesis using Undecodable
    by (intro exI [of _ invalid_format_msg]) (simp add: handle_message_def reply_eq)
next
  case Unreadable
  with assms(2) show ?thesis by simp
next
  case (Decoded v)
  have st: "field ''status'' missing_room_id_msg = Some (JStr ERROR)"
    by (simp add: missing_room_id_msg_def)
  have "handle_message net websocket message w = reply net websocket missing_room_id_msg w"
    using assms(1) Decoded by (cases v) (simp_all add: handle_message_def)
  then show ?thesis using st
    by (intro exI [of _ missing_room_id_msg]) (simp add: reply_eq)
qed

theorem malformed_rejected_witness:
  "malformed (Decoded (JList [JStr ''room_id''])) \<and>
   handle_message net_ok 2 (Decoded (JList [JStr ''room_id''])) s1 =
     (Continue, s1\<lparr>wire := wire s1 @ [(2, missing_room_id_msg, SendOk)]\<rparr>)"
  using malformed_rejected [of "Decoded (JList [JStr ''room_id''])" net_ok 2 s1 "[]"]
  by (simp add: handle_message_def reply_eq net_ok_def)

text \<open>
  A frame that does not decode and is not answered: connection 1, alone in room \<open>r1\<close>,
  sends a frame on which \<^verbatim>\<open>json.loads\<close> raises an exception other than
  \<^verbatim>\<open>JSONDecodeError\<close>. Nothing is sent, the frame that follows is not read, and the
  cleanup that ends the coroutine removes the room.
\<close>

theorem malformed_unanswered_counterexample:
  "malformed Unreadable \<and>
   handle_message net_ok 1 Unreadable s1 = (Raised, s1) \<and>
   message_loop net_ok 1 [Unreadable, hello] s1 = s1 \<and>
   rooms s1 (HStr ''r1'') =
     Some \<lparr>clients = [1], players = [(1, 1)], used_player_numbers = [(1, True)]\<rparr> \<and>
   rooms (handler net_ok 1 [Unreadable, hello] s1) (HStr ''r1'') = None"
  by (simp add: handle_message_def handler_def s1_eq cleanup_player_def remove_player_def
      AList.delete_eq Let_def)

text \<open>
  C6. A connection that is not in a room of two (or more) clients and sends a message for
  that room gets one \<^verbatim>\<open>room_full\<close> reply with the current count and the maximum 2, and
  nothing else happens: \<^verbatim>\<open>rooms\<close> (so the room's clients, players and numbers) and
  \<^verbatim>\<open>client_rooms\<close> are unchanged.
\<close>

theorem full_room_rejected:
  assumes "map_of kvs ''room_id'' = Some rid" and "as_hashable rid = Some room_id"
    and "rooms w (key_of room_id) = Some room"
    and "websocket \<notin> set (clients room)" and "length (clients room) \<ge> 2"
  shows "handle_message net websocket (Decoded (JObj kvs)) w =
           (if net (length (wire w)) = SendOk then Continue else Raised,
            w\<lparr>wire := wire w @
              [(websocket, room_full_msg room_id (length (clients room)),
                net (length (wire w)))]\<rparr>) \<and>
         rooms (snd (handle_message net websocket (Decoded (JObj kvs)) w)) = rooms w \<and>
         client_rooms (snd (handle_message net websocket (Decoded (JObj kvs)) w))
           = client_rooms w \<and>
         field ''status'' (room_full_msg room_id (length (clients room)))
           = Some (JStr ROOM_FULL) \<and>
         data_field ''current_players_count'' (room_full_msg room_id (length (clients room)))
           = Some (JInt (int (length (clients room)))) \<and>
         data_field ''max_players'' (room_full_msg room_id (length (clients room)))
           = Some (JInt 2)"
  using assms by (simp add: handle_message_def reply_eq room_full_msg_def data_field_def)

theorem full_room_rejected_witness:
  "rooms s2 (key_of (HStr ''r1'')) =
     Some \<lparr>clients = [1, 2], players = [(1, 1), (2, 2)],
           used_player_numbers = [(1, True), (2, True)]\<rparr> \<and>
   handle_message net_ok 3 hello s2 =
     (Continue, s2\<lparr>wire := wire s2 @ [(3, room_full_msg (HStr ''r1'') 2, SendOk)]\<rparr>)"
proof -
  let ?r = "\<lparr>clients = [1, 2], players = [(1, 1), (2, 2)],
             used_player_numbers = [(1, True), (2, True)]\<rparr>"
  have a: "map_of [(''room_id'', JStr ''r1'')] ''room_id'' = Some (JStr ''r1'')" by simp
  have b: "as_hashable (JStr ''r1'') = Some (HStr ''r1'')" by simp
  have c: "rooms s2 (key_of (HStr ''r1'')) = Some ?r" by (simp add: s2_eq)
  have d: "3 \<notin> set (clients ?r)" by simp
  have e: "length (clients ?r) \<ge> 2" by simp
  have f: "length (clients ?r) = 2" by simp
  from full_room_rejected [OF a b c d e, of net_ok] c show ?thesis
    unfolding f by (simp add: hello_def net_ok_def)
qed

section \<open>Creating a room\<close>

text \<open>
  C4. A message whose \<^verbatim>\<open>room_id\<close> is a usable key that is not in \<^verbatim>\<open>rooms\<close> creates the
  room with the sender as its only client and player 1, records the sender in
  \<^verbatim>\<open>client_rooms\<close>, and sends the sender one \<^verbatim>\<open>room_created\<close> reply with the room id,
  player number 1, count 1 and maximum 2.
\<close>

theorem unknown_room_created:
  assumes "map_of kvs ''room_id'' = Some rid" and "as_hashable rid = Some room_id"
    and "rooms w (key_of room_id) = None"
  shows "handle_message net websocket (Decoded (JObj kvs)) w =
           (if net (length (wire w)) = SendOk then Continue else Raised,
            w\<lparr>rooms := (rooms w)(key_of room_id \<mapsto>
                  \<lparr>clients = [websocket], players = [(websocket, 1)],
                   used_player_numbers = [(1, True)]\<rparr>),
               client_rooms := (client_rooms w)(websocket \<mapsto> room_id),
               wire := wire w @
                 [(websocket, room_created_msg room_id, net (length (wire w)))]\<rparr>) \<and>
         field ''status'' (room_created_msg room_id) = Some (JStr ROOM_CREATED) \<and>
         data_field ''room_id'' (room_created_msg room_id) = Some rid \<and>
         data_field ''player_number'' (room_created_msg room_id) = Some (JInt 1) \<and>
         data_field ''current_players_count'' (room_created_msg room_id) = Some (JInt 1) \<and>
         data_field ''max_players'' (room_created_msg room_id) = Some (JInt 2)"
proof -
  from assms(2) have "to_json room_id = rid" by (cases rid) auto
  with assms show ?thesis
    by (simp add: handle_message_def create_room_def reply_eq room_created_msg_def
        data_field_def)
qed

theorem unknown_room_created_witness:
  "rooms init (key_of (HStr ''r1'')) = None \<and>
   handle_message net_ok 1 hello init = (Continue, s1) \<and>
   data_field ''player_number'' (room_created_msg (HStr ''r1'')) = Some (JInt 1)"
  using unknown_room_created
    [of "[(''room_id'', JStr ''r1'')]" "JStr ''r1''" "HStr ''r1''" init net_ok 1]
  by (simp add: s1_eq hello_def net_ok_def init_def)

section \<open>Joining a room\<close>

lemma attempts_send [simp]: "attempts (snd (send net c m w)) = attempts w @ [(c, m)]"
  by (simp add: attempts_def)

lemma notify_others_attempts:
  "attempts (notify_others net ws m cs w) = attempts w @ map (\<lambda>c. (c, m)) (filter (\<lambda>c. c \<noteq> ws) cs)"
  by (induction cs arbitrary: w) simp_all

lemma notify_all_attempts:
  "attempts (notify_all net m cs w) = attempts w @ map (\<lambda>c. (c, m)) cs"
  by (induction cs arbitrary: w) simp_all

lemma join_eq:
  assumes "map_of kvs ''room_id'' = Some rid" and "as_hashable rid = Some room_id"
    and "rooms w (key_of room_id) = Some room"
    and "websocket \<notin> set (clients room)" and "length (clients room) < 2"
  shows "handle_message net websocket (Decoded (JObj kvs)) w = join_room net websocket room_id room w"
  using assms by (simp add: handle_message_def)

lemma join_room_ok:
  assumes "available_numbers room = Some available" and "net (length (wire w)) = SendOk"
  shows "join_room net ws room_id room w =
    (Continue, notify_others net ws
       (player_joined_msg room_id (choose_number available) (Suc (length (clients room)))
          (map snd (AList.update ws (choose_number available) (players room))))
       (clients room @ [ws])
       (w\<lparr>rooms := (rooms w)(key_of room_id \<mapsto> add_player ws (choose_number available) room),
          client_rooms := (client_rooms w)(ws \<mapsto> room_id),
          wire := wire w @ [(ws, room_joined_msg room_id (choose_number available) (Suc (length (clients room)))
          (map snd (AList.update ws (choose_number available) (players room))), SendOk)]\<rparr>))"
  using assms by (simp add: join_room_def Let_def send_def add_player_def)

lemma update_fresh: "k \<notin> fst ` set al \<Longrightarrow> AList.update k v al = al @ [(k, v)]"
  by (induction al) auto

text \<open>
  C1, as the code has it. When a connection joins a room with a free slot (and its
  \<^verbatim>\<open>room_joined\<close> reply is sent), that reply and the \<^verbatim>\<open>player_joined\<close> message sent to
  every other client carry in \<^verbatim>\<open>players\<close> the values of the dict \<^verbatim>\<open>room["players"]\<close> in
  insertion order (line 112): the numbers of the members in the order they joined, the
  joiner's own number last. Nothing sorts the list.
\<close>

theorem join_players_list:
  assumes "map_of kvs ''room_id'' = Some rid" and "as_hashable rid = Some room_id"
    and "rooms w (key_of room_id) = Some room"
    and "websocket \<notin> set (clients room)" and "length (clients room) < 2"
    and "\<forall>c\<in>set (clients room). map_of (players room) c \<noteq> None"
    and "net (length (wire w)) = SendOk"
  shows "\<exists>room' n. 
     rooms (snd (handle_message net websocket (Decoded (JObj kvs)) w)) (key_of room_id) = Some room' \<and>
     map_of (players room') websocket = Some n \<and>
     (websocket \<notin> fst ` set (players room) \<longrightarrow> players room' = players room @ [(websocket, n)]) \<and>
     attempts (snd (handle_message net websocket (Decoded (JObj kvs)) w)) =
       attempts w @
       (websocket, room_joined_msg room_id n (length (clients room')) (map snd (players room'))) #
       map (\<lambda>c. (c, player_joined_msg room_id n (length (clients room')) (map snd (players room'))))
         (clients room) \<and>
     data_field ''players'' (room_joined_msg room_id n (length (clients room')) (map snd (players room')))
       = Some (JList (map JInt (map snd (players room')))) \<and>
     data_field ''players'' (player_joined_msg room_id n (length (clients room')) (map snd (players room')))
       = Some (JList (map JInt (map snd (players room'))))"
proof -
  from available_numbers_nonempty [OF assms(5,6)] obtain available where
    av: "available_numbers room = Some available" by blast
  let ?n = "choose_number available"
  let ?room' = "add_player websocket ?n room"
  have f: "filter (\<lambda>c. c \<noteq> websocket) (clients room) = clients room"
    using assms(4) by (auto simp add: filter_id_conv)
  have h: "handle_message net websocket (Decoded (JObj kvs)) w =
      join_room net websocket room_id room w"
    by (rule join_eq [OF assms(1-5)])
  note j = join_room_ok [where net = net and w = w, OF av assms(7)]
  have 1: "rooms (snd (handle_message net websocket (Decoded (JObj kvs)) w)) (key_of room_id)
      = Some ?room'"
    by (simp add: h j)
  have 2: "map_of (players ?room') websocket = Some ?n"
    by (simp add: add_player_def AList.update_conv')
  have 3: "websocket \<notin> fst ` set (players room) \<longrightarrow>
      players ?room' = players room @ [(websocket, ?n)]"
    by (simp add: add_player_def update_fresh)
  have 4: "attempts (snd (handle_message net websocket (Decoded (JObj kvs)) w)) =
       attempts w @
       (websocket, room_joined_msg room_id ?n (length (clients ?room')) (map snd (players ?room'))) #
       map (\<lambda>c. (c, player_joined_msg room_id ?n (length (clients ?room'))
                      (map snd (players ?room'))))
         (clients room)"
    by (simp add: h j notify_others_attempts f) (simp add: attempts_def add_player_def)
  have 5: "data_field ''players'' (room_joined_msg room_id n k ps) = Some (JList (map JInt ps))"
    for n k ps by (simp add: room_joined_msg_def data_field_def)
  have 6: "data_field ''players'' (player_joined_msg room_id n k ps) = Some (JList (map JInt ps))"
    for n k ps by (simp add: player_joined_msg_def data_field_def)
  from 1 2 3 4 5 6 show ?thesis by blast
qed

theorem join_players_list_witness:
  "rooms s3 (key_of (HStr ''r1'')) =
     Some \<lparr>clients = [2], players = [(2, 2)], used_player_numbers = [(2, True)]\<rparr> \<and>
   attempts s4 = attempts s3 @
     [(3, room_joined_msg (HStr ''r1'') 1 2 [2, 1]), (2, player_joined_msg (HStr ''r1'') 1 2 [2, 1])]"
proof -
  let ?r = "\<lparr>clients = [2], players = [(2, 2)], used_player_numbers = [(2, True)]\<rparr>"
  have a: "map_of [(''room_id'', JStr ''r1'')] ''room_id'' = Some (JStr ''r1'')" by simp
  have b: "as_hashable (JStr ''r1'') = Some (HStr ''r1'')" by simp
  have c: "rooms s3 (key_of (HStr ''r1'')) = Some ?r" by (simp add: s3_eq)
  have d: "3 \<notin> set (clients ?r)" by simp
  have e: "length (clients ?r) < 2" by simp
  have f: "\<forall>c\<in>set (clients ?r). map_of (players ?r) c \<noteq> None" by simp
  have g: "net_ok (length (wire s3)) = SendOk" by (simp add: net_ok_def)
  from join_players_list [where net = net_ok and w = s3, OF a b c d e f g] c show ?thesis
    by (simp add: s4_eq s3_eq attempts_def)
qed

text \<open>
  The list is not sorted when slot 1 was released and re-assigned after slot 2 was taken:
  in \<open>s3\<close> connection 2 holds number 2 and connection 1 has left; connection 3 gets number 1
  and both messages carry \<^verbatim>\<open>[2, 1]\<close>.
\<close>

theorem players_not_sorted_counterexample:
  "wire (snd (handle_message net_ok 3 hello s3)) ! 4
     = (3, room_joined_msg (HStr ''r1'') 1 2 [2, 1], SendOk) \<and>
   wire (snd (handle_message net_ok 3 hello s3)) ! 5
     = (2, player_joined_msg (HStr ''r1'') 1 2 [2, 1], SendOk) \<and>
   data_field ''players'' (room_joined_msg (HStr ''r1'') 1 2 [2, 1]) = Some (JList [JInt 2, JInt 1]) \<and>
   data_field ''players'' (player_joined_msg (HStr ''r1'') 1 2 [2, 1]) = Some (JList [JInt 2, JInt 1]) \<and>
   sort [2, 1 :: int] \<noteq> [2, 1]"
  using s4_eq
  by (simp add: s4_def room_joined_msg_def player_joined_msg_def data_field_def)




lemma join_room_state:
  assumes "available_numbers room = Some available"
  shows "rooms (snd (join_room net ws room_id room w)) =
           (rooms w)(key_of room_id \<mapsto> add_player ws (choose_number available) room)"
    and "client_rooms (snd (join_room net ws room_id room w)) = (client_rooms w)(ws \<mapsto> room_id)"
  using assms
  by (cases "net (length (wire w))"; simp add: join_room_def Let_def send_def)+




lemma cleanup_member_rooms:
  assumes "client_rooms w x = Some hx" and "rooms w (key_of hx) = Some room"
    and "x \<in> set (clients room)" and "hx \<noteq> HNone"
  shows "rooms (cleanup_player net x w) =
     (if clients (snd (remove_player x room)) = [] then (rooms w)(key_of hx := None)
      else (rooms w)(key_of hx \<mapsto> snd (remove_player x room)))"
  using assms by (auto simp add: cleanup_player_def Let_def split: prod.splits)




section \<open>Relaying a message\<close>

lemma notify_all_wire:
  "\<exists>rest. wire (notify_all net m cs w) = wire w @ rest \<and> (\<forall>x\<in>set rest. fst (snd x) = m)"
proof (induction cs arbitrary: w)
  case Nil
  show ?case by simp
next
  case (Cons c cs)
  from Cons [of "snd (send net c m w)"] obtain rest where
    r: "wire (notify_all net m cs (snd (send net c m w))) =
         wire w @ (c, m, net (length (wire w))) # rest" and a: "\<forall>x\<in>set rest. fst (snd x) = m"
    by auto
  show ?case
    by (rule exI [of _ "(c, m, net (length (wire w))) # rest"]) (simp add: r a)
qed

lemma cleanup_wire:
  "\<exists>rest. wire (cleanup_player net c w) = wire w @ rest \<and>
     (\<forall>x\<in>set rest. field ''status'' (fst (snd x)) = Some (JStr PLAYER_LEFT))"
proof -
  have st: "field ''status'' (player_left_msg h pn k ps) = Some (JStr PLAYER_LEFT)" for h pn k ps
    by (simp add: player_left_msg_def)
  have n: "\<exists>rest. wire (notify_all net (player_left_msg h pn k ps) cs w') = wire w' @ rest \<and>
     (\<forall>x\<in>set rest. field ''status'' (fst (snd x)) = Some (JStr PLAYER_LEFT))" for h pn k ps cs w'
    using notify_all_wire [of net "player_left_msg h pn k ps" cs w'] st by auto
  consider (absent) "client_rooms w c = None"
    | (null) "client_rooms w c = Some HNone"
    | (no_room) h where "client_rooms w c = Some h" "h \<noteq> HNone" "rooms w (key_of h) = None"
    | (not_in) h room where "client_rooms w c = Some h" "h \<noteq> HNone"
        "rooms w (key_of h) = Some room" "c \<notin> set (clients room)"
    | (member) h room where "client_rooms w c = Some h" "h \<noteq> HNone"
        "rooms w (key_of h) = Some room" "c \<in> set (clients room)"
    by (cases "client_rooms w c") auto
  then show ?thesis
  proof cases
    case absent
    then show ?thesis by (simp add: cleanup_player_def)
  next
    case null
    then show ?thesis by (simp add: cleanup_null_room)
  next
    case no_room
    then show ?thesis by (simp add: cleanup_player_def)
  next
    case not_in
    then show ?thesis by (simp add: cleanup_player_def)
  next
    case member
    obtain pn room' where rp: "remove_player c room = (pn, room')"
      by (cases "remove_player c room")
    let ?w2 = "w\<lparr>client_rooms := (client_rooms w)(c := None),
                 rooms := (rooms w)(key_of h \<mapsto> room')\<rparr>"
    from n [of h pn "length (clients room')" "map snd (players room')" "clients room'" ?w2]
    obtain rest where
      "wire (notify_all net
         (player_left_msg h pn (length (clients room')) (map snd (players room')))
         (clients room') ?w2) = wire w @ rest"
      "\<forall>x\<in>set rest. field ''status'' (fst (snd x)) = Some (JStr PLAYER_LEFT)" by auto
    with member rp show ?thesis
      by (auto simp add: cleanup_player_def Let_def)
  qed
qed

lemma relay_eq:
  assumes "map_of kvs ''room_id'' = Some rid" and "as_hashable rid = Some room_id"
    and "rooms w (key_of room_id) = Some room"
    and "websocket \<in> set (clients room)"
  shows "handle_message net websocket (Decoded (JObj kvs)) w =
     relay net websocket room_id (JObj kvs) room w"
  using assms by (simp add: handle_message_def)

lemma forward_loop_two:
  assumes "{ws, peer} = {a, b}" and "ws \<noteq> peer"
  shows "forward_loop net ws m [a, b] (0, w) =
     (case net (length (wire w)) of
        SendOk \<Rightarrow> (1, snd (send net peer m w))
      | ConnectionClosed \<Rightarrow> (0, cleanup_player net peer (snd (send net peer m w)))
      | SendFailed \<Rightarrow> (0, snd (send net peer m w)))"
proof -
  from assms have "ws = a \<and> peer = b \<or> ws = b \<and> peer = a" by (auto simp: doubleton_eq_iff)
  then show ?thesis using assms(2)
    by (auto simp add: send_def Let_def split: send_result.splits)
qed


lemma relay_two:
  assumes "clients room = [a, b]" and "{ws, peer} = {a, b}" and "ws \<noteq> peer"
    and "map_of (players room) ws = Some pn"
  shows "\<exists>rest w1.
     relay net ws room_id data room w =
       reply net ws
         (data_received_msg room_id (if net (length (wire w)) = SendOk then 1 else 0)
            (case rooms w1 (key_of room_id) of None \<Rightarrow> 0 | Some r \<Rightarrow> length (clients r))) w1 \<and>
     wire w1 = wire w @ (peer, data_transfer_msg data pn, net (length (wire w))) # rest \<and>
     (\<forall>x\<in>set rest. field ''status'' (fst (snd x)) = Some (JStr PLAYER_LEFT)) \<and>
     (net (length (wire w)) \<noteq> ConnectionClosed \<longrightarrow>
        w1 = snd (send net peer (data_transfer_msg data pn) w))"
proof -
  let ?m = "data_transfer_msg data pn"
  let ?w0 = "snd (send net peer ?m w)"
  note f = forward_loop_two [OF assms(2,3), of net ?m w]
  show ?thesis
  proof (cases "net (length (wire w))")
    case SendOk
    show ?thesis
      apply (rule exI [of _ "[]"], rule exI [of _ ?w0])
      using SendOk assms(1,4) f by (simp add: relay_def)
  next
    case SendFailed
    show ?thesis
      apply (rule exI [of _ "[]"], rule exI [of _ ?w0])
      using SendFailed assms(1,4) f by (simp add: relay_def)
  next
    case ConnectionClosed
    from cleanup_wire [of net peer ?w0] obtain rest where
      r: "wire (cleanup_player net peer ?w0) = wire ?w0 @ rest"
        "\<forall>x\<in>set rest. field ''status'' (fst (snd x)) = Some (JStr PLAYER_LEFT)" by blast
    show ?thesis
      apply (rule exI [of _ rest], rule exI [of _ "cleanup_player net peer ?w0"])
      using ConnectionClosed assms(1,4) f r by (simp add: relay_def)
  qed
qed





section \<open>Rooms without clients\<close>

lemma no_empty_room_wire [simp]: "no_empty_room (w\<lparr>wire := x\<rparr>) = no_empty_room w"
  by (simp add: no_empty_room_def)
















section \<open>Sends to a peer that fail\<close>

lemma s2_drop_eq:
  "s2_drop = \<lparr>rooms = [HStr ''r1'' \<mapsto>
            \<lparr>clients = [1, 2], players = [(1, 1), (2, 2)],
             used_player_numbers = [(1, True), (2, True)]\<rparr>],
         client_rooms = [1 \<mapsto> HStr ''r1'', 2 \<mapsto> HStr ''r1''],
         wire = [(1, room_created_msg (HStr ''r1''), SendOk),
                 (2, room_joined_msg (HStr ''r1'') 2 2 [1, 2], SendOk),
                 (1, player_joined_msg (HStr ''r1'') 2 2 [1, 2], ConnectionClosed)]\<rparr>"
  by (simp add: s2_drop_def s1_eq hello_def handle_message_def join_room_def add_player_def
      available_numbers_def choose_number_def send_def Let_def net_drop_def eval_nat_numeral)

lemma cleanup_rooms_indep:
  "rooms (cleanup_player net c w) = rooms (cleanup_player net' c w)"
proof -
  consider (absent) "client_rooms w c = None"
    | (null) "client_rooms w c = Some HNone"
    | (no_room) h where "client_rooms w c = Some h" "h \<noteq> HNone" "rooms w (key_of h) = None"
    | (not_in) h room where "client_rooms w c = Some h" "h \<noteq> HNone"
        "rooms w (key_of h) = Some room" "c \<notin> set (clients room)"
    | (member) h room where "client_rooms w c = Some h" "h \<noteq> HNone"
        "rooms w (key_of h) = Some room" "c \<in> set (clients room)"
    by (cases "client_rooms w c") auto
  then show ?thesis
  proof cases
    case absent
    then show ?thesis by (simp add: cleanup_player_def)
  next
    case null
    then show ?thesis by (simp add: cleanup_null_room)
  next
    case no_room
    then show ?thesis by (simp add: cleanup_player_def)
  next
    case not_in
    then show ?thesis by (simp add: cleanup_player_def)
  next
    case member
    show ?thesis
      by (simp only: cleanup_member_rooms [OF member(1,3,4,2)])
  qed
qed

lemma relay_two_closed:
  assumes "clients room = [a, b]" and "{ws, peer} = {a, b}" and "ws \<noteq> peer"
    and "map_of (players room) ws = Some pn" and "net (length (wire w)) = ConnectionClosed"
  shows "relay net ws room_id data room w =
       reply net ws
         (data_received_msg room_id 0
            (case rooms (cleanup_player net peer (snd (send net peer (data_transfer_msg data pn) w)))
                    (key_of room_id) of None \<Rightarrow> 0 | Some r \<Rightarrow> length (clients r)))
         (cleanup_player net peer (snd (send net peer (data_transfer_msg data pn) w)))"
  using assms(1,4,5) forward_loop_two [OF assms(2,3), of net "data_transfer_msg data pn" w]
  by (simp add: relay_def)

text \<open>
  C2, as the code has it. A failed send to a peer never fails the operation for the
  connection that caused it: a join whose \<^verbatim>\<open>room_joined\<close> reply was sent ends normally with
  the joiner added, whatever happens to the \<^verbatim>\<open>player_joined\<close> sends; a relay in a room of
  two always ends with the \<^verbatim>\<open>data_received\<close> reply to the sender, whose outcome alone
  decides whether the sender's loop continues; and what a cleanup does to the two dicts
  does not depend on the outcomes of its \<^verbatim>\<open>player_left\<close> sends. The peer is cleaned up
  only in the relay, and only when the forward raised \<^verbatim>\<open>ConnectionClosed\<close> (line 176); any
  other failure of the forward (line 177) and every failure of a \<^verbatim>\<open>player_joined\<close> or
  \<^verbatim>\<open>player_left\<close> send (lines 144, 247) is logged and nothing else: the peer stays a
  member.
\<close>

theorem peer_send_failure:
  assumes "map_of kvs ''room_id'' = Some rid" and "as_hashable rid = Some room_id"
    and "rooms w (key_of room_id) = Some room"
    and "handle_message net websocket (Decoded (JObj kvs)) w = (fl, w')"
  shows
   "(websocket \<notin> set (clients room) \<and> length (clients room) < 2 \<and>
     available_numbers room = Some available \<and> net (length (wire w)) = SendOk \<longrightarrow>
       fl = Continue \<and>
       rooms w' = (rooms w)(key_of room_id \<mapsto>
                     add_player websocket (choose_number available) room) \<and>
       client_rooms w' = (client_rooms w)(websocket \<mapsto> room_id)) \<and>
    (clients room = [a, b] \<and> {websocket, peer} = {a, b} \<and> websocket \<noteq> peer \<and>
     map_of (players room) websocket = Some player_number \<longrightarrow>
       (\<exists>m res. last (wire w') = (websocket, m, res) \<and>
          field ''status'' m = Some (JStr DATA_RECEIVED) \<and> (fl = Continue \<longleftrightarrow> res = SendOk)) \<and>
       (net (length (wire w)) = ConnectionClosed \<longrightarrow>
          rooms w' = rooms (cleanup_player net peer
                       (snd (send net peer (data_transfer_msg (JObj kvs) player_number) w))) \<and>
          client_rooms w' = (client_rooms w)(peer := None)) \<and>
       (net (length (wire w)) = SendFailed \<longrightarrow>
          rooms w' = rooms w \<and> client_rooms w' = client_rooms w)) \<and>
    rooms (cleanup_player net c w) = rooms (cleanup_player net2 c w) \<and>
    client_rooms (cleanup_player net c w) = client_rooms (cleanup_player net2 c w)"
  (is "(?HJ \<longrightarrow> ?CJ) \<and> (?HR \<longrightarrow> ?CR) \<and> ?CL")
proof (rule conjI [OF _ conjI])
  show "?HJ \<longrightarrow> ?CJ"
  proof
    assume h: ?HJ
    then have e: "handle_message net websocket (Decoded (JObj kvs)) w =
        join_room net websocket room_id room w"
      using join_eq [OF assms(1-3), of websocket net] by simp
    from h have av: "available_numbers room = Some available"
      and ok: "net (length (wire w)) = SendOk" by simp_all
    from e assms(4) have j: "join_room net websocket room_id room w = (fl, w')" by simp
    from join_room_ok [where net = net and w = w, OF av ok, of websocket room_id]
    have "fl = Continue" unfolding j by simp
    moreover from join_room_state [OF av, of net websocket room_id w]
    have "rooms w' = (rooms w)(key_of room_id \<mapsto>
                     add_player websocket (choose_number available) room)"
      and "client_rooms w' = (client_rooms w)(websocket \<mapsto> room_id)"
      unfolding j by simp_all
    ultimately show ?CJ by simp
  qed
  show "?HR \<longrightarrow> ?CR"
  proof
    assume h: ?HR
    let ?m = "data_transfer_msg (JObj kvs) player_number"
    from h have "websocket \<in> set (clients room)" by auto
    then have e: "handle_message net websocket (Decoded (JObj kvs)) w =
        relay net websocket room_id (JObj kvs) room w"
      using relay_eq [OF assms(1-3), of websocket net] by simp
    from h relay_two [of room a b websocket peer player_number net room_id "JObj kvs" w]
    obtain rest w1 n where
      r: "relay net websocket room_id (JObj kvs) room w =
       reply net websocket (data_received_msg room_id (if net (length (wire w)) = SendOk then 1 else 0) n) w1"
      and ok: "net (length (wire w)) \<noteq> ConnectionClosed \<longrightarrow> w1 = snd (send net peer ?m w)"
      by blast
    from e r assms(4) have c1: "\<exists>m res. last (wire w') = (websocket, m, res) \<and>
          field ''status'' m = Some (JStr DATA_RECEIVED) \<and> (fl = Continue \<longleftrightarrow> res = SendOk)"
      by (auto simp add: reply_eq data_received_msg_def)
    have c2: "net (length (wire w)) = ConnectionClosed \<longrightarrow>
          rooms w' = rooms (cleanup_player net peer (snd (send net peer ?m w))) \<and>
          client_rooms w' = (client_rooms w)(peer := None)"
    proof
      assume cc: "net (length (wire w)) = ConnectionClosed"
      from h cc relay_two_closed [of room a b websocket peer player_number net w room_id "JObj kvs"]
        e assms(4)
      show "rooms w' = rooms (cleanup_player net peer (snd (send net peer ?m w))) \<and>
          client_rooms w' = (client_rooms w)(peer := None)"
        by (auto simp add: reply_eq cleanup_client_rooms)
    qed
    have c3: "net (length (wire w)) = SendFailed \<longrightarrow>
          rooms w' = rooms w \<and> client_rooms w' = client_rooms w"
    proof
      assume sf: "net (length (wire w)) = SendFailed"
      with ok have "w1 = snd (send net peer ?m w)" by simp
      with e r assms(4) show "rooms w' = rooms w \<and> client_rooms w' = client_rooms w"
        by (auto simp add: reply_eq)
    qed
    from c1 c2 c3 show ?CR by blast
  qed
  show ?CL by (simp add: cleanup_client_rooms cleanup_rooms_indep [of net c w net2])
qed


theorem peer_send_failure_witness:
  "handle_message net_drop 2 hello s1 = (Continue, s2_drop) \<and>
   snd (snd (last (wire s2_drop))) = ConnectionClosed \<and>
   client_rooms s2_drop = (client_rooms s1)(2 \<mapsto> HStr ''r1'') \<and>
   net_closed (length (wire s2)) = ConnectionClosed \<and>
   client_rooms (snd (handle_message net_closed 1 (Decoded (JObj move)) s2))
     = (client_rooms s2)(2 := None)"
proof -
  let ?r1 = "\<lparr>clients = [1], players = [(1, 1)], used_player_numbers = [(1, True)]\<rparr>"
  let ?r2 = "\<lparr>clients = [1, 2], players = [(1, 1), (2, 2)],
           used_player_numbers = [(1, True), (2, True)]\<rparr>"
  obtain fl1 w1 where e1: "handle_message net_drop 2 (Decoded (JObj [(''room_id'', JStr ''r1'')])) s1
      = (fl1, w1)"
    by (cases "handle_message net_drop 2 (Decoded (JObj [(''room_id'', JStr ''r1'')])) s1")
  obtain fl2 w2 where e2: "handle_message net_closed 1 (Decoded (JObj move)) s2 = (fl2, w2)"
    by (cases "handle_message net_closed 1 (Decoded (JObj move)) s2")
  have a: "map_of [(''room_id'', JStr ''r1'')] ''room_id'' = Some (JStr ''r1'')" by simp
  have a': "map_of move ''room_id'' = Some (JStr ''r1'')" by (simp add: move_def)
  have b: "as_hashable (JStr ''r1'') = Some (HStr ''r1'')" by simp
  have c1: "rooms s1 (key_of (HStr ''r1'')) = Some ?r1" by (simp add: s1_eq)
  have c2: "rooms s2 (key_of (HStr ''r1'')) = Some ?r2" by (simp add: s2_eq)
  have hj: "2 \<notin> set (clients ?r1) \<and> length (clients ?r1) < 2 \<and>
     available_numbers ?r1 = Some [2] \<and> net_drop (length (wire s1)) = SendOk"
    by (simp add: available_numbers_def s1_eq net_drop_def)
  have hr: "clients ?r2 = [1, 2] \<and> {1, 2} = {1, 2::nat} \<and> (1::nat) \<noteq> 2 \<and>
     map_of (players ?r2) 1 = Some 1" by simp
  have cc: "net_closed (length (wire s2)) = ConnectionClosed"
    by (simp add: s2_eq net_closed_def)
  from peer_send_failure [OF a b c1 e1, where available = "[2]"] hj
  have "fl1 = Continue" and "client_rooms w1 = (client_rooms s1)(2 \<mapsto> HStr ''r1'')"
    by simp_all
  moreover from e1 have "w1 = s2_drop" by (simp add: s2_drop_def hello_def)
  moreover
  from peer_send_failure [OF a' b c2 e2, where a = 1 and b = 2 and peer = 2
      and player_number = 1] hr cc
  have "client_rooms w2 = (client_rooms s2)(2 := None)" by simp
  moreover have "snd (snd (last (wire s2_drop))) = ConnectionClosed" by (simp add: s2_drop_eq)
  ultimately show ?thesis using e1 e2 cc by (simp add: hello_def)
qed

text \<open>
  The \<^verbatim>\<open>player_joined\<close> send to connection 1 fails with a closed connection when
  connection 2 joins, and connection 1 is not cleaned up: it is still in \<^verbatim>\<open>client_rooms\<close>
  and in the room, whereas a cleanup would have removed it.
\<close>

theorem failed_notification_counterexample:
  "last (wire s2_drop) = (1, player_joined_msg (HStr ''r1'') 2 2 [1, 2], ConnectionClosed) \<and>
   client_rooms s2_drop 1 = Some (HStr ''r1'') \<and>
   rooms s2_drop (HStr ''r1'') =
     Some \<lparr>clients = [1, 2], players = [(1, 1), (2, 2)],
           used_player_numbers = [(1, True), (2, True)]\<rparr> \<and>
   client_rooms (cleanup_player net_drop 1 s2_drop) 1 = None"
  by (simp add: s2_drop_eq cleanup_client_rooms)

end
